theory Spec2Isabelle
  imports Main "HOL-Library.Word" "HOL-Library.Sublist"
begin

unbundle bit_operations_syntax

section \<open>The wininet HTTP driver: utils_windows.go\<close>

text \<open>
  A shallow embedding of \<^verbatim>\<open>implant/sliver/transports/httpclient/drivers/win/wininet/utils_windows.go\<close>.
  Go's \<^verbatim>\<open>string\<close> and \<^verbatim>\<open>[]byte\<close> are both byte sequences and are modelled as
  \<^typ>\<open>string\<close>; \<^verbatim>\<open>int\<close>, \<^verbatim>\<open>int64\<close> and \<^verbatim>\<open>uintptr\<close> are 64-bit words (the amd64
  target), read as two's complement with \<^const>\<open>sint\<close> where the source compares signed values.
\<close>

type_synonym int64 = "64 word"
type_synonym uintptr = "64 word"

subsection \<open>The Go standard library functions the file calls\<close>

text \<open>
  \<^verbatim>\<open>strings.Cut\<close>-style search: the text before and after the first occurrence of a
  non-empty separator, or \<open>None\<close> when it does not occur (\<^verbatim>\<open>strings.Index\<close> returning -1).
\<close>

fun cut :: "string \<Rightarrow> string \<Rightarrow> (string \<times> string) option" where
  "cut sep [] = None"
| "cut sep (c # cs) =
     (if prefix sep (c # cs) then Some ([], drop (length sep) (c # cs))
      else (case cut sep cs of None \<Rightarrow> None | Some (a, b) \<Rightarrow> Some (c # a, b)))"

text \<open>
  \<^verbatim>\<open>strings.genSplit\<close> for a non-empty separator: the argument \<open>k\<close> is the number of cuts
  still allowed (\<^verbatim>\<open>n - 1\<close> in the source).
\<close>

fun genSplit :: "string \<Rightarrow> string \<Rightarrow> nat \<Rightarrow> string list" where
  "genSplit s sep 0 = [s]"
| "genSplit s sep (Suc k) =
     (case cut sep s of None \<Rightarrow> [s] | Some (a, b) \<Rightarrow> a # genSplit b sep k)"

text \<open>\<^verbatim>\<open>strings.SplitN(s, sep, 2)\<close>: at most one cut, so one or two parts.\<close>

definition SplitN2 :: "string \<Rightarrow> string \<Rightarrow> string list" where
  "SplitN2 s sep = genSplit s sep 1"

text \<open>
  \<^verbatim>\<open>strings.Split(s, sep)\<close>: every occurrence is cut. Each cut consumes at least one byte
  of a non-empty separator, so \<open>length s\<close> cuts are never exhausted.
\<close>

definition Split :: "string \<Rightarrow> string \<Rightarrow> string list" where
  "Split s sep = genSplit s sep (length s)"

definition HasPrefix :: "string \<Rightarrow> string \<Rightarrow> bool" where
  "HasPrefix s p = prefix p s"

text \<open>\<^verbatim>\<open>strings.Replace(s, old, new, 1)\<close> for a non-empty \<open>old\<close>: the first occurrence only.\<close>

definition Replace1 :: "string \<Rightarrow> string \<Rightarrow> string \<Rightarrow> string" where
  "Replace1 s old new = (case cut old s of None \<Rightarrow> s | Some (a, b) \<Rightarrow> a @ new @ b)"

text \<open>
  \<^verbatim>\<open>strings.Fields\<close> splits around runs of white space as \<^verbatim>\<open>unicode.IsSpace\<close> defines it.
  On the UTF-8 bytes of a Go string these are the six ASCII bytes and the encodings of
  U+0085, U+00A0, U+1680, U+2000 to U+200A, U+2028, U+2029, U+202F, U+205F and U+3000. None
  of them starts with a continuation byte, so they are recognised at any byte position.
\<close>

definition spaces :: "string list" where
  "spaces =
     [[CHR 0x09], [CHR 0x0A], [CHR 0x0B], [CHR 0x0C], [CHR 0x0D], [CHR 0x20],
      [CHR 0xC2, CHR 0x85], [CHR 0xC2, CHR 0xA0], [CHR 0xE1, CHR 0x9A, CHR 0x80],
      [CHR 0xE2, CHR 0x80, CHR 0x80], [CHR 0xE2, CHR 0x80, CHR 0x81],
      [CHR 0xE2, CHR 0x80, CHR 0x82], [CHR 0xE2, CHR 0x80, CHR 0x83],
      [CHR 0xE2, CHR 0x80, CHR 0x84], [CHR 0xE2, CHR 0x80, CHR 0x85],
      [CHR 0xE2, CHR 0x80, CHR 0x86], [CHR 0xE2, CHR 0x80, CHR 0x87],
      [CHR 0xE2, CHR 0x80, CHR 0x88], [CHR 0xE2, CHR 0x80, CHR 0x89],
      [CHR 0xE2, CHR 0x80, CHR 0x8A], [CHR 0xE2, CHR 0x80, CHR 0xA8],
      [CHR 0xE2, CHR 0x80, CHR 0xA9], [CHR 0xE2, CHR 0x80, CHR 0xAF],
      [CHR 0xE2, CHR 0x81, CHR 0x9F], [CHR 0xE3, CHR 0x80, CHR 0x80]]"

definition space_at :: "string \<Rightarrow> nat option" where
  "space_at s = map_option length (find (\<lambda>sp. prefix sp s) spaces)"

text \<open>
  One pass over the bytes with the field being collected (\<open>None\<close> between fields) and
  the number of bytes of a multi-byte space still to skip.
\<close>

fun Fields_scan :: "string \<Rightarrow> string option \<Rightarrow> nat \<Rightarrow> string list" where
  "Fields_scan [] cur skip = (case cur of None \<Rightarrow> [] | Some f \<Rightarrow> [f])"
| "Fields_scan (c # cs) cur skip =
     (if skip > 0 then Fields_scan cs cur (skip - 1)
      else
        (case space_at (c # cs) of
           Some n \<Rightarrow> (case cur of None \<Rightarrow> Fields_scan cs None (n - 1)
                      | Some f \<Rightarrow> f # Fields_scan cs None (n - 1))
         | None \<Rightarrow> Fields_scan cs (Some ((case cur of None \<Rightarrow> [] | Some f \<Rightarrow> f) @ [c])) 0))"

definition Fields :: "string \<Rightarrow> string list" where
  "Fields s = Fields_scan s None 0"

text \<open>
  \<^verbatim>\<open>strconv.ParseInt(s, 10, 64)\<close>. \<^verbatim>\<open>ParseUint\<close> reads the digits left to right and
  stops at the first byte that is not a decimal digit (a syntax error) or at the first
  overflow of 64 bits (a range error); \<^verbatim>\<open>ParseInt\<close> strips one sign and checks the
  signed range.
\<close>

datatype NumError = ErrSyntax | ErrRange

definition maxUint64 :: nat where
  "maxUint64 = 2 ^ 64 - 1"

definition is_digit :: "char \<Rightarrow> bool" where
  "is_digit c = (48 \<le> (of_char c :: nat) \<and> (of_char c :: nat) \<le> 57)"

fun ParseUint_loop :: "string \<Rightarrow> nat \<Rightarrow> NumError + nat" where
  "ParseUint_loop [] n = Inr n"
| "ParseUint_loop (c # cs) n =
     (if \<not> is_digit c then Inl ErrSyntax
      else if n \<ge> maxUint64 div 10 + 1 then Inl ErrRange
      else if n * 10 + ((of_char c :: nat) - 48) > maxUint64 then Inl ErrRange
      else ParseUint_loop cs (n * 10 + ((of_char c :: nat) - 48)))"

definition ParseUint :: "string \<Rightarrow> NumError + nat" where
  "ParseUint s = (if s = [] then Inl ErrSyntax else ParseUint_loop s 0)"

definition ParseInt :: "string \<Rightarrow> NumError + int64" where
  "ParseInt s0 =
     (if s0 = [] then Inl ErrSyntax
      else
        let neg = (hd s0 = CHR ''-'');
            s = (if hd s0 = CHR ''+'' \<or> hd s0 = CHR ''-'' then tl s0 else s0)
        in case ParseUint s of
             Inl ErrSyntax \<Rightarrow> Inl ErrSyntax
           | Inl ErrRange \<Rightarrow> Inl ErrRange
           | Inr un \<Rightarrow>
               if \<not> neg \<and> un \<ge> 2 ^ 63 then Inl ErrRange
               else if neg \<and> un > 2 ^ 63 then Inl ErrRange
               else Inr (if neg then - word_of_nat un else word_of_nat un))"

subsection \<open>Data model\<close>

record Cookie =
  Name :: string
  Value :: string

text \<open>
  \<^verbatim>\<open>Request\<close> and \<^verbatim>\<open>Response\<close> are declared elsewhere in the package; the fields are the ones
  this file reads and writes. \<^verbatim>\<open>Headers\<close> is a Go map which the source ranges over: the
  list is the map's entries in the order that one iteration visits them, which the Go
  runtime leaves unspecified. \<^verbatim>\<open>r.Cookies()\<close> is read as the field \<open>Cookies\<close>. The body of a
  response is \<open>RBody\<close>, and the list that \<^verbatim>\<open>AddCookie\<close> fills is \<open>cookies\<close>.
\<close>

record Request =
  Method :: string
  URL :: string
  Headers :: "(string \<times> string) list"
  Cookies :: "Cookie list"
  Body :: string

record Response =
  RBody :: string
  ContentLength :: int64
  Header :: "string \<rightharpoonup> string list"
  Proto :: string
  ProtoMajor :: int64
  ProtoMinor :: int64
  Status :: string
  StatusCode :: int64
  cookies :: "Cookie list"

text \<open>
  Modelled from the spec: \<^verbatim>\<open>Response.AddCookie\<close> is not in this file. The response's
  cookies are an ordered sequence and each added cookie goes to its end.
\<close>

definition AddCookie :: "Response \<Rightarrow> Cookie \<Rightarrow> Response" where
  "AddCookie res c = res\<lparr>cookies := cookies res @ [c]\<rparr>"

subsection \<open>Errors and panics\<close>

text \<open>
  One constructor for each \<^verbatim>\<open>fmt.Errorf\<close> of the file, carrying what the message wraps.
  An error of a native call is its message.
\<close>

datatype error =
    FailedToQueryInfo string
  | StatusInvalid string NumError
  | InvalidHTTPVersion NumError
  | FailedToQueryDataAvailable string
  | FailedToReadData string
  | FailedToAddCookies string
  | FailedToAddRequestHeaders string
  | FailedToSendRequest string

datatype panic = IndexOutOfRange | MakesliceLenOutOfRange

text \<open>
  A call either returns its Go results together with the engine's new state, or panics.
\<close>

datatype ('a, 'e) res = Done 'a 'e | Panicked panic

subsection \<open>The native bindings\<close>

text \<open>
  The bindings and constants of the package that this file uses and does not define are
  parameters. \<open>'e\<close> is the state of the native engine behind the handles. A Go pointer
  argument is an in-out parameter: the binding receives the variable's current value and
  returns its new one. An error result is \<open>Some message\<close>, \<^verbatim>\<open>nil\<close> is \<open>None\<close>.
\<close>

record 'e wininet =
  HTTPQueryStatusCode :: uintptr
  HTTPQueryStatusText :: uintptr
  HTTPQuerySetCookie :: uintptr
  HTTPQueryRawHeadersCRLF :: uintptr
  HTTPAddreqFlagAdd :: uintptr
  HTTPAddreqFlagAddIfNew :: uintptr
  HTTPAddreqFlagReplace :: uintptr
  HTTPQueryInfoW ::
    "'e \<Rightarrow> uintptr \<Rightarrow> uintptr \<Rightarrow> string \<Rightarrow> int64 \<Rightarrow> int64
       \<Rightarrow> string option \<times> string \<times> int64 \<times> int64 \<times> 'e"
  InternetQueryDataAvailable ::
    "'e \<Rightarrow> uintptr \<Rightarrow> int64 \<Rightarrow> string option \<times> int64 \<times> 'e"
  InternetReadFile ::
    "'e \<Rightarrow> uintptr \<Rightarrow> string \<Rightarrow> int64 \<Rightarrow> int64
       \<Rightarrow> string option \<times> string \<times> int64 \<times> 'e"
  HTTPAddRequestHeadersW ::
    "'e \<Rightarrow> uintptr \<Rightarrow> string \<Rightarrow> uintptr \<Rightarrow> string option \<times> 'e"
  HTTPSendRequestW ::
    "'e \<Rightarrow> uintptr \<Rightarrow> string \<Rightarrow> int64 \<Rightarrow> string \<Rightarrow> int64 \<Rightarrow> string option \<times> 'e"

subsection \<open>queryResponse\<close>

text \<open>
  \<^verbatim>\<open>make([]byte, size)\<close> panics with \<^verbatim>\<open>makeslice: len out of range\<close> when the length is
  negative or above the largest allocation of the runtime, which is \<open>2 ^ 48\<close> bytes on
  amd64. Running out of memory on a length within the range is not modelled.
\<close>

definition maxAlloc :: int where
  "maxAlloc = 2 ^ 48"

text \<open>
  The first call gets the nil buffer and size 0. When it fails, \<^verbatim>\<open>make([]byte, size)\<close>
  allocates what the call left in \<^verbatim>\<open>size\<close> and the call is repeated once, with
  \<^verbatim>\<open>size\<close> and \<^verbatim>\<open>idx\<close> as the first call left them.
\<close>

definition queryResponse ::
  "'e wininet \<Rightarrow> 'e \<Rightarrow> uintptr \<Rightarrow> uintptr \<Rightarrow> int64 \<Rightarrow> (error + string, 'e) res" where
  "queryResponse w s reqHndl info idx0 =
     (let idx = (if sint idx0 < 0 then 0 else idx0) in
      case HTTPQueryInfoW w s reqHndl info [] 0 idx of
        (None, buffer, sz, idx', s') \<Rightarrow> Done (Inr buffer) s'
      | (Some e, buffer, sz, idx', s') \<Rightarrow>
          if sint sz < 0 \<or> maxAlloc < sint sz then Panicked MakesliceLenOutOfRange
          else
            (case HTTPQueryInfoW w s' reqHndl info (replicate (unat sz) (CHR 0x00)) sz idx' of
               (None, buffer', sz', idx'', s'') \<Rightarrow> Done (Inr buffer') s''
             | (Some e', buffer', sz', idx'', s'') \<Rightarrow> Done (Inl (FailedToQueryInfo e')) s''))"

subsection \<open>getCookies\<close>

text \<open>
  The loop \<^verbatim>\<open>for i := 0; ; i++\<close> has no bound, so the function is partial: \<open>None\<close> is a
  run that never returns. \<^verbatim>\<open>tmp[1]\<close> is read whatever \<^verbatim>\<open>SplitN\<close> returned; on a result of
  one part the index is out of range and the Go runtime panics.
\<close>

partial_function (option) getCookies_loop ::
  "'e wininet \<Rightarrow> 'e \<Rightarrow> uintptr \<Rightarrow> int64 \<Rightarrow> Cookie list \<Rightarrow> (Cookie list, 'e) res option" where
  "getCookies_loop w s reqHndl i cs =
     (case queryResponse w s reqHndl (HTTPQuerySetCookie w) i of
        Panicked p \<Rightarrow> Some (Panicked p)
      | Done (Inl e) s' \<Rightarrow> Some (Done cs s')
      | Done (Inr b) s' \<Rightarrow>
          (case SplitN2 b ''='' of
             [] \<Rightarrow> Some (Panicked IndexOutOfRange)
           | [t0] \<Rightarrow> Some (Panicked IndexOutOfRange)
           | t0 # t1 # ts \<Rightarrow>
               getCookies_loop w s' reqHndl (i + 1) (cs @ [\<lparr>Name = t0, Value = t1\<rparr>])))"

declare getCookies_loop.simps [code]

definition getCookies :: "'e wininet \<Rightarrow> 'e \<Rightarrow> uintptr \<Rightarrow> (Cookie list, 'e) res option" where
  "getCookies w s reqHndl = getCookies_loop w s reqHndl 0 []"

subsection \<open>getHeaders\<close>

text \<open>
  The variables the loop over the lines carries: \<^verbatim>\<open>proto\<close>, \<^verbatim>\<open>major\<close>, \<^verbatim>\<open>minor\<close> and the map
  \<^verbatim>\<open>hdrs\<close>.
\<close>

type_synonym hdrs = "string \<rightharpoonup> string list"
type_synonym parsed = "string \<times> int64 \<times> int64 \<times> hdrs"

datatype 'a outcome = Return 'a | Panic panic

fun getHeaders_lines :: "string list \<Rightarrow> parsed \<Rightarrow> (error + parsed) outcome" where
  "getHeaders_lines [] st = Return (Inr st)"
| "getHeaders_lines (hdr # rest) (proto, major, minor, hdrs) =
     (case SplitN2 hdr '': '' of
        [k, v] \<Rightarrow>
          (let hdrs1 = (if hdrs k = None then hdrs(k \<mapsto> []) else hdrs);
               hdrs2 = hdrs1(k \<mapsto> the (hdrs1 k) @ [v])
           in getHeaders_lines rest (proto, major, minor, hdrs2))
      | _ \<Rightarrow>
          if HasPrefix hdr ''HTTP'' then
            (case Fields hdr of
               [] \<Rightarrow> Panic IndexOutOfRange
             | proto' # fs \<Rightarrow>
                 (case Split proto' ''.'' of
                    t0 # t1 # ts \<Rightarrow>
                      (case ParseInt (Replace1 t0 ''HTTP/'' []) of
                         Inl e \<Rightarrow> Return (Inl (InvalidHTTPVersion e))
                       | Inr major' \<Rightarrow>
                           (case ParseInt t1 of
                              Inl e \<Rightarrow> Return (Inl (InvalidHTTPVersion e))
                            | Inr minor' \<Rightarrow>
                                getHeaders_lines rest (proto', major', minor', hdrs)))
                  | _ \<Rightarrow> getHeaders_lines rest (proto', major, minor, hdrs)))
          else getHeaders_lines rest (proto, major, minor, hdrs))"

definition getHeaders :: "'e wininet \<Rightarrow> 'e \<Rightarrow> uintptr \<Rightarrow> (error + parsed, 'e) res" where
  "getHeaders w s reqHndl =
     (case queryResponse w s reqHndl (HTTPQueryRawHeadersCRLF w) 0 of
        Panicked p \<Rightarrow> Panicked p
      | Done (Inl e) s' \<Rightarrow> Done (Inl e) s'
      | Done (Inr b) s' \<Rightarrow>
          (case getHeaders_lines (Split b [CHR 0x0D, CHR 0x0A]) ([], 0, 0, Map.empty) of
             Panic p \<Rightarrow> Panicked p
           | Return r \<Rightarrow> Done r s'))"

subsection \<open>readResponse\<close>

text \<open>
  The loop carries the engine state and the variables \<^verbatim>\<open>b\<close>, \<^verbatim>\<open>chunk\<close>, \<^verbatim>\<open>chunkLen\<close>,
  \<^verbatim>\<open>contentLen\<close> and \<^verbatim>\<open>n\<close>. It ends only on a failed call or on zero bytes available, so
  the function is partial. The body is the byte sequence the returned reader serves.
\<close>

type_synonym rstate = "string \<times> string \<times> int64 \<times> int64 \<times> int64"

partial_function (option) readResponse_loop ::
  "'e wininet \<Rightarrow> uintptr \<Rightarrow> 'e \<Rightarrow> rstate \<Rightarrow> (error + string \<times> int64, 'e) res option" where
  "readResponse_loop w reqHndl s st =
     (case st of (b, chunk, chunkLen, contentLen, n) \<Rightarrow>
        (case InternetQueryDataAvailable w s reqHndl chunkLen of
           (Some e, chunkLen', s1) \<Rightarrow> Some (Done (Inl (FailedToQueryDataAvailable e)) s1)
         | (None, chunkLen', s1) \<Rightarrow>
             if chunkLen' = 0 then Some (Done (Inr (b, contentLen)) s1)
             else
               (case InternetReadFile w s1 reqHndl chunk chunkLen' n of
                  (Some e, chunk', n', s2) \<Rightarrow> Some (Done (Inl (FailedToReadData e)) s2)
                | (None, chunk', n', s2) \<Rightarrow>
                    readResponse_loop w reqHndl s2
                      (b @ chunk', chunk', chunkLen', contentLen + chunkLen', n'))))"

declare readResponse_loop.simps [code]

definition readResponse ::
  "'e wininet \<Rightarrow> 'e \<Rightarrow> uintptr \<Rightarrow> (error + string \<times> int64, 'e) res option" where
  "readResponse w s reqHndl = readResponse_loop w reqHndl s ([], [], 0, 0, 0)"

subsection \<open>buildResponse\<close>

text \<open>
  \<^verbatim>\<open>var cookies []*Cookie\<close> is a variable of the package: \<^verbatim>\<open>buildResponse\<close> assigns it and
  reads it back. The model passes its value in and returns the value the call leaves in
  it, next to the engine's state. A run that returns early leaves the variable as it is at
  that point.
\<close>

definition buildResponse ::
  "'e wininet \<Rightarrow> Cookie list \<Rightarrow> 'e \<Rightarrow> uintptr \<Rightarrow> Request
     \<Rightarrow> (error + Response, Cookie list \<times> 'e) res option" where
  "buildResponse w cookies_var s reqHndl req =
     (case queryResponse w s reqHndl (HTTPQueryStatusCode w) 0 of
        Panicked p \<Rightarrow> Some (Panicked p)
      | Done (Inl e) s1 \<Rightarrow> Some (Done (Inl e) (cookies_var, s1))
      | Done (Inr b) s1 \<Rightarrow>
          (case ParseInt b of
             Inl e \<Rightarrow> Some (Done (Inl (StatusInvalid b e)) (cookies_var, s1))
           | Inr code \<Rightarrow>
               (case queryResponse w s1 reqHndl (HTTPQueryStatusText w) 0 of
                  Panicked p \<Rightarrow> Some (Panicked p)
                | Done (Inl e) s2 \<Rightarrow> Some (Done (Inl e) (cookies_var, s2))
                | Done (Inr b') s2 \<Rightarrow>
                    (let status = (if length b' > 0 then b @ '' '' @ b' else b) in
                     case getCookies w s2 reqHndl of
                       None \<Rightarrow> None
                     | Some (Panicked p) \<Rightarrow> Some (Panicked p)
                     | Some (Done cookies_var' s3) \<Rightarrow>
                         (case getHeaders w s3 reqHndl of
                            Panicked p \<Rightarrow> Some (Panicked p)
                          | Done (Inl e) s4 \<Rightarrow> Some (Done (Inl e) (cookies_var', s4))
                          | Done (Inr (proto, major, minor, hdrs)) s4 \<Rightarrow>
                              (case readResponse w s4 reqHndl of
                                 None \<Rightarrow> None
                               | Some (Panicked p) \<Rightarrow> Some (Panicked p)
                               | Some (Done (Inl e) s5) \<Rightarrow> Some (Done (Inl e) (cookies_var', s5))
                               | Some (Done (Inr (body, contentLen)) s5) \<Rightarrow>
                                   (let res = \<lparr>RBody = body, ContentLength = contentLen,
                                                Header = hdrs, Proto = proto,
                                                ProtoMajor = major, ProtoMinor = minor,
                                                Status = status, StatusCode = code,
                                                cookies = []\<rparr>;
                                        res1 = foldl AddCookie res (Cookies req);
                                        res2 = foldl AddCookie res1 cookies_var'
                                    in Some (Done (Inr res2) (cookies_var', s5)))))))))"

subsection \<open>sendRequest\<close>

text \<open>
  The result of the first \<^verbatim>\<open>HTTPAddRequestHeadersW\<close> call, the one adding
  \<^verbatim>\<open>Cookie: ignore=ignore\<close>, is discarded; only the engine's state goes on from it.
\<close>

fun addCookies :: "'e wininet \<Rightarrow> 'e \<Rightarrow> uintptr \<Rightarrow> Cookie list \<Rightarrow> string option \<times> 'e" where
  "addCookies w s reqHndl [] = (None, s)"
| "addCookies w s reqHndl (c # cs) =
     (case HTTPAddRequestHeadersW w s reqHndl (''Cookie: '' @ Name c @ ''='' @ Value c)
             (HTTPAddreqFlagAdd w) of
        (Some e, s') \<Rightarrow> (Some e, s')
      | (None, s') \<Rightarrow> addCookies w s' reqHndl cs)"

fun addHeaders ::
  "'e wininet \<Rightarrow> 'e \<Rightarrow> uintptr \<Rightarrow> (string \<times> string) list \<Rightarrow> string option \<times> 'e" where
  "addHeaders w s reqHndl [] = (None, s)"
| "addHeaders w s reqHndl ((k, v) # hs) =
     (case HTTPAddRequestHeadersW w s reqHndl (k @ '': '' @ v)
             (HTTPAddreqFlagAdd w OR HTTPAddreqFlagReplace w) of
        (Some e, s') \<Rightarrow> (Some e, s')
      | (None, s') \<Rightarrow> addHeaders w s' reqHndl hs)"

definition sendRequest :: "'e wininet \<Rightarrow> 'e \<Rightarrow> uintptr \<Rightarrow> Request \<Rightarrow> error option \<times> 'e" where
  "sendRequest w s reqHndl r =
     (case HTTPAddRequestHeadersW w s reqHndl ''Cookie: ignore=ignore''
             (HTTPAddreqFlagAddIfNew w) of
        (ignored, s0) \<Rightarrow>
          (case addCookies w s0 reqHndl (Cookies r) of
             (Some e, s1) \<Rightarrow> (Some (FailedToAddCookies e), s1)
           | (None, s1) \<Rightarrow>
               (case addHeaders w s1 reqHndl (Headers r) of
                  (Some e, s2) \<Rightarrow> (Some (FailedToAddRequestHeaders e), s2)
                | (None, s2) \<Rightarrow>
                    (case HTTPSendRequestW w s2 reqHndl [] 0 (Body r)
                            (word_of_nat (length (Body r))) of
                       (Some e, s3) \<Rightarrow> (Some (FailedToSendRequest e), s3)
                     | (None, s3) \<Rightarrow> (None, s3)))))"

section \<open>Describing what the engine does\<close>

text \<open>
  \<open>reads w h s (chunk, chunkLen, n) steps\<close>: starting in state \<open>s\<close> with the variables of
  \<^verbatim>\<open>readResponse\<close> as given, the engine reports the non-zero size \<open>c\<close> and then delivers
  the chunk \<open>d\<close> without error, for each \<open>(c, d)\<close> of \<open>steps\<close> in turn. The result is the
  engine's state and the variables after the last of them.
\<close>

fun reads ::
  "'e wininet \<Rightarrow> uintptr \<Rightarrow> 'e \<Rightarrow> string \<times> int64 \<times> int64 \<Rightarrow> (int64 \<times> string) list
     \<Rightarrow> ('e \<times> string \<times> int64 \<times> int64) option" where
  "reads w h s vars [] = Some (s, vars)"
| "reads w h s (chunk, chunkLen, n) ((c, d) # steps) =
     (case InternetQueryDataAvailable w s h chunkLen of
        (Some e, c', s1) \<Rightarrow> None
      | (None, c', s1) \<Rightarrow>
          if c' = c \<and> c \<noteq> 0 then
            (case InternetReadFile w s1 h chunk c n of
               (Some e, d', n', s2) \<Rightarrow> None
             | (None, d', n', s2) \<Rightarrow>
                 if d' = d then reads w h s2 (d, c, n') steps else None)
          else None)"

text \<open>
  \<open>enumerates w h s i bs\<close>: starting in state \<open>s\<close>, the \<^verbatim>\<open>Set-Cookie\<close> queries at the
  indices \<open>i\<close>, \<open>i + 1\<close>, ... succeed with the results \<open>bs\<close>, one after the other. The result
  is the engine's state after the last of them.
\<close>

fun enumerates :: "'e wininet \<Rightarrow> uintptr \<Rightarrow> 'e \<Rightarrow> int64 \<Rightarrow> string list \<Rightarrow> 'e option" where
  "enumerates w h s i [] = Some s"
| "enumerates w h s i (b # bs) =
     (case queryResponse w s h (HTTPQuerySetCookie w) i of
        Done (Inr b') s' \<Rightarrow> if b' = b then enumerates w h s' (i + 1) bs else None
      | _ \<Rightarrow> None)"

text \<open>The cookie that the text \<open>name=value\<close> stands for.\<close>

definition cookie_of :: "string \<Rightarrow> Cookie" where
  "cookie_of b =
     \<lparr>Name = takeWhile (\<lambda>c. c \<noteq> CHR ''='') b, Value = tl (dropWhile (\<lambda>c. c \<noteq> CHR ''='') b)\<rparr>"

text \<open>
  A header line that \<^verbatim>\<open>getHeaders\<close> has no use for: it does not split in two on
  \<open>'': ''\<close> and does not start with \<open>''HTTP''\<close>.
\<close>

definition ignorable :: "string \<Rightarrow> bool" where
  "ignorable hdr = (length (SplitN2 hdr '': '') \<noteq> 2 \<and> \<not> HasPrefix hdr ''HTTP'')"

text \<open>What the caller of \<^verbatim>\<open>buildResponse\<close> gets: the results and the engine, not the package variable.\<close>

fun returned ::
  "(error + Response, Cookie list \<times> 'e) res option \<Rightarrow> (error + Response, 'e) res option" where
  "returned None = None"
| "returned (Some (Panicked p)) = Some (Panicked p)"
| "returned (Some (Done r (g, s))) = Some (Done r s)"

text \<open>The value of the package variable \<^verbatim>\<open>cookies\<close> after a call that returned.\<close>

fun cookies_var_after :: "(error + Response, Cookie list \<times> 'e) res option \<Rightarrow> Cookie list option" where
  "cookies_var_after (Some (Done r (g, s))) = Some g"
| "cookies_var_after _ = None"

section \<open>A scripted engine\<close>

text \<open>
  A concrete engine to run the functions on. Its state is the body still to be served, as
  pairs of the size reported and the chunk delivered (\<open>None\<close> for a read that fails), and
  the log of the native calls made so far. A query is answered from a table; unless the
  engine is \<open>eager\<close> it first fails with the size needed, as the native call does on a
  buffer that is too small. With \<open>reported\<close> set, that size is reported instead of the
  size needed.
\<close>

type_synonym tstate = "(int64 \<times> string option) list \<times> string list"

record script =
  table :: "uintptr \<Rightarrow> int64 \<Rightarrow> string option"
  eager :: bool
  reported :: "int64 option"
  rejected :: "string \<Rightarrow> bool"
  sendfails :: bool

definition engine :: "script \<Rightarrow> tstate wininet" where
  "engine sc =
     \<lparr>HTTPQueryStatusCode = 19, HTTPQueryStatusText = 20, HTTPQuerySetCookie = 43,
      HTTPQueryRawHeadersCRLF = 22, HTTPAddreqFlagAdd = 0x20000000,
      HTTPAddreqFlagAddIfNew = 0x10000000, HTTPAddreqFlagReplace = 0x80000000,
      HTTPQueryInfoW = (\<lambda>s h info buffer sz idx.
         case table sc info idx of
           None \<Rightarrow> (Some ''header not found'', buffer, sz, idx, (fst s, snd s @ [''query'']))
         | Some v \<Rightarrow>
             if \<not> eager sc \<and> unat sz < length v
             then (Some ''insufficient buffer'', buffer,
                   (case reported sc of None \<Rightarrow> word_of_nat (length v) | Some z \<Rightarrow> z), idx,
                   (fst s, snd s @ [''query'']))
             else (None, v, word_of_nat (length v), idx, (fst s, snd s @ [''query'']))),
      InternetQueryDataAvailable = (\<lambda>s h chunkLen.
         case fst s of
           [] \<Rightarrow> (None, 0, (fst s, snd s @ [''avail'']))
         | (c, d) # rest \<Rightarrow> (None, c, (fst s, snd s @ [''avail'']))),
      InternetReadFile = (\<lambda>s h chunk chunkLen n.
         case fst s of
           [] \<Rightarrow> (None, [], 0, (fst s, snd s @ [''read'']))
         | (c, None) # rest \<Rightarrow> (Some ''read failed'', chunk, n, (rest, snd s @ [''read'']))
         | (c, Some d) # rest \<Rightarrow> (None, d, word_of_nat (length d), (rest, snd s @ [''read'']))),
      HTTPAddRequestHeadersW = (\<lambda>s h line flags.
         if rejected sc line then (Some ''rejected'', (fst s, snd s @ [''refused '' @ line]))
         else (None, (fst s, snd s @ [''added '' @ line]))),
      HTTPSendRequestW = (\<lambda>s h hdrs hlen body blen.
         if sendfails sc then (Some ''send failed'', (fst s, snd s @ [''send'']))
         else (None, (fst s, snd s @ [''send''])))\<rparr>"

definition answer ::
  "string option \<Rightarrow> string option \<Rightarrow> string list \<Rightarrow> string option \<Rightarrow> uintptr \<Rightarrow> int64
     \<Rightarrow> string option" where
  "answer code text setcookies raw info idx =
     (if info = 19 then code
      else if info = 20 then text
      else if info = 43 then
        (if unat idx < length setcookies then Some (setcookies ! unat idx) else None)
      else if info = 22 then raw
      else None)"

definition CRLF :: string where
  "CRLF = [CHR 0x0D, CHR 0x0A]"

definition raw0 :: string where
  "raw0 = ''HTTP/1.1 200 OK'' @ CRLF @ ''Server: x'' @ CRLF @ ''junk'' @ CRLF @ CRLF"

definition script_of ::
  "string option \<Rightarrow> string option \<Rightarrow> string list \<Rightarrow> string option \<Rightarrow> script" where
  "script_of code text setcookies raw =
     \<lparr>table = answer code text setcookies raw, eager = False, reported = None,
      rejected = (\<lambda>line. False), sendfails = False\<rparr>"

definition script0 :: script where
  "script0 = script_of (Some ''200'') (Some ''OK'') [''C=3''] (Some raw0)"

definition body0 :: "(int64 \<times> string option) list" where
  "body0 = [(10, Some ''0123456789''), (5, Some ''abcde'')]"

definition request0 :: Request where
  "request0 =
     \<lparr>Method = ''GET'', URL = ''http://example.test/'', Headers = [(''Accept'', ''text/plain'')],
      Cookies = [\<lparr>Name = ''A'', Value = ''1''\<rparr>, \<lparr>Name = ''B'', Value = ''2''\<rparr>], Body = ''hello''\<rparr>"

text \<open>What \<^verbatim>\<open>buildResponse\<close> returns on \<open>script0\<close>, \<open>body0\<close> and \<open>request0\<close>.\<close>

definition response0 :: Response where
  "response0 =
     \<lparr>RBody = ''0123456789abcde'', ContentLength = 15, Header = [''Server'' \<mapsto> [''x'']],
      Proto = ''HTTP/1.1'', ProtoMajor = 1, ProtoMinor = 1, Status = ''200 OK'',
      StatusCode = 200,
      cookies = [\<lparr>Name = ''A'', Value = ''1''\<rparr>, \<lparr>Name = ''B'', Value = ''2''\<rparr>,
                 \<lparr>Name = ''C'', Value = ''3''\<rparr>]\<rparr>"

text \<open>
  The log after one more query that needed the retry, and after the whole of
  \<^verbatim>\<open>buildResponse\<close> on \<open>script0\<close>: five such queries, two chunks and the final size report.
\<close>

definition twice :: "string list \<Rightarrow> string list" where
  "twice log = log @ [''query'', ''query'']"

definition log0 :: "string list" where
  "log0 = twice (twice (twice (twice (twice [])))) @ [''avail'', ''read'', ''avail'', ''read'', ''avail'']"

text \<open>Further scripts: a status that is missing or not a number, cookies without a value,
  a header block with a malformed status line, and engines that refuse one header line.\<close>

definition script_missing :: script where
  "script_missing = script_of None None [] None"

definition script_invalid :: script where
  "script_invalid = script_of (Some ''2x0'') (Some ''OK'') [] (Some raw0)"

definition script_same_name :: script where
  "script_same_name = script_of (Some ''200'') (Some ''OK'') [''A=9''] (Some raw0)"

definition script_novalue :: script where
  "script_novalue = script_of (Some ''200'') (Some ''OK'') [''novalue''] (Some raw0)"

definition script_novalue_later :: script where
  "script_novalue_later = script_of (Some ''200'') (Some ''OK'') [''A=1'', ''novalue''] (Some raw0)"

definition script_bad_version :: script where
  "script_bad_version = script_of (Some ''200'') (Some ''OK'') [] (Some ''HTTP/a.b'')"

definition script_clean :: script where
  "script_clean =
     script_of (Some ''200'') (Some ''OK'') [''C=3''] (Some (''HTTP/1.1 200 OK'' @ CRLF @ ''Server: x''))"

definition refusing :: "string \<Rightarrow> script" where
  "refusing l = script0\<lparr>rejected := (\<lambda>line. line = l)\<rparr>"

text \<open>An engine that reports the size \<open>z\<close> when the buffer is too small, and a header block
  of one line that is neither a header nor a status line.\<close>

definition reporting :: "int64 \<Rightarrow> script" where
  "reporting z = script0\<lparr>reported := Some z\<rparr>"

definition script_junk :: script where
  "script_junk = script_of (Some ''200'') (Some ''OK'') [] (Some ''junk'')"

section \<open>Evaluating the scripted engine\<close>

lemmas fixture_defs =
  engine_def script0_def script_of_def answer_def body0_def request0_def raw0_def CRLF_def
  response0_def log0_def twice_def script_missing_def script_invalid_def script_same_name_def
  script_novalue_def script_novalue_later_def script_bad_version_def script_clean_def
  refusing_def reporting_def script_junk_def

lemmas eval_defs =
  queryResponse_def getCookies_def getCookies_loop.simps SplitN2_def Split_def getHeaders_def
  HasPrefix_def Fields_def space_at_def spaces_def Replace1_def ParseInt_def ParseUint_def
  is_digit_def maxUint64_def readResponse_def readResponse_loop.simps AddCookie_def Let_def
  maxAlloc_def

lemma engine_consts:
  "HTTPQueryStatusCode (engine sc) = 19" "HTTPQueryStatusText (engine sc) = 20"
  "HTTPQuerySetCookie (engine sc) = 43" "HTTPQueryRawHeadersCRLF (engine sc) = 22"
  "HTTPAddreqFlagAdd (engine sc) = 0x20000000" "HTTPAddreqFlagAddIfNew (engine sc) = 0x10000000"
  "HTTPAddreqFlagReplace (engine sc) = 0x80000000"
  by (simp_all add: engine_def)

lemma ParseInt_200: "ParseInt ''200'' = Inr 200"
  by (simp add: eval_defs)

lemma run0_code:
  "queryResponse (engine script0) (body0, []) 1 19 0 = Done (Inr ''200'') (body0, twice [])"
  by (simp add: fixture_defs eval_defs)

lemma run0_text:
  "queryResponse (engine script0) (body0, twice []) 1 20 0
     = Done (Inr ''OK'') (body0, twice (twice []))"
  by (simp add: fixture_defs eval_defs)

lemma run0_cookies:
  "getCookies (engine script0) (body0, twice (twice [])) 1
     = Some (Done [\<lparr>Name = ''C'', Value = ''3''\<rparr>] (body0, twice (twice (twice (twice [])))))"
  by (simp add: fixture_defs eval_defs)

lemma run0_headers:
  "getHeaders (engine script0) (body0, twice (twice (twice (twice [])))) 1
     = Done (Inr (''HTTP/1.1'', 1, 1, [''Server'' \<mapsto> [''x'']]))
         (body0, twice (twice (twice (twice (twice [])))))"
  by (simp add: fixture_defs eval_defs)

lemma run0_body:
  "readResponse (engine script0) (body0, twice (twice (twice (twice (twice []))))) 1
     = Some (Done (Inr (''0123456789abcde'', 15)) ([], log0))"
  by (simp add: fixture_defs eval_defs)

lemma run0_build:
  "buildResponse (engine script0) g (body0, []) 1 request0
     = Some (Done (Inr response0) ([\<lparr>Name = ''C'', Value = ''3''\<rparr>], [], log0))"
  unfolding buildResponse_def engine_consts
  by (simp add: run0_code ParseInt_200 run0_text run0_cookies run0_headers run0_body)
    (simp add: response0_def request0_def AddCookie_def Let_def)

section \<open>The string functions\<close>

lemma cut_None: "c \<notin> set s \<Longrightarrow> cut [c] s = None"
  by (induction s) auto

lemma cut_Some:
  "c \<in> set s \<Longrightarrow> cut [c] s = Some (takeWhile (\<lambda>x. x \<noteq> c) s, tl (dropWhile (\<lambda>x. x \<noteq> c) s))"
  by (induction s) auto

lemma SplitN2_without: "c \<notin> set s \<Longrightarrow> SplitN2 s [c] = [s]"
  by (simp add: SplitN2_def cut_None)

lemma SplitN2_with:
  "c \<in> set s \<Longrightarrow> SplitN2 s [c] = [takeWhile (\<lambda>x. x \<noteq> c) s, tl (dropWhile (\<lambda>x. x \<noteq> c) s)]"
  by (simp add: SplitN2_def cut_Some)

section \<open>The loops\<close>

text \<open>
  While the engine keeps delivering chunks, \<^verbatim>\<open>readResponse\<close> appends each to the body and
  adds each reported size to the content length.
\<close>

lemma readResponse_loop_reads:
  "reads w h s (chunk, chunkLen, n) steps = Some (s', chunk', chunkLen', n') \<Longrightarrow>
   readResponse_loop w h s (b, chunk, chunkLen, cl, n) =
   readResponse_loop w h s'
     (b @ concat (map snd steps), chunk', chunkLen', cl + sum_list (map fst steps), n')"
proof (induction steps arbitrary: s chunk chunkLen n b cl)
  case Nil
  then show ?case by simp
next
  case (Cons step steps)
  obtain c d where step: "step = (c, d)" by (cases step)
  obtain e c' s1 where q: "InternetQueryDataAvailable w s h chunkLen = (e, c', s1)"
    by (cases "InternetQueryDataAvailable w s h chunkLen")
  from Cons.prems step q have e: "e = None" and c: "c' = c" "c \<noteq> 0"
    by (auto split: option.splits if_splits)
  obtain e2 d' n2 s2 where r: "InternetReadFile w s1 h chunk c n = (e2, d', n2, s2)"
    by (cases "InternetReadFile w s1 h chunk c n")
  from Cons.prems step q e c r have e2: "e2 = None" and d: "d' = d"
    and rest: "reads w h s2 (d, c, n2) steps = Some (s', chunk', chunkLen', n')"
    by (auto split: option.splits if_splits)
  have "readResponse_loop w h s (b, chunk, chunkLen, cl, n) =
        readResponse_loop w h s2 (b @ d, d, c, cl + c, n2)"
    by (subst readResponse_loop.simps) (simp add: q e c r e2 d)
  also have "\<dots> = readResponse_loop w h s'
     ((b @ d) @ concat (map snd steps), chunk', chunkLen', (cl + c) + sum_list (map fst steps), n')"
    by (rule Cons.IH [OF rest])
  finally show ?case by (simp add: step add.assoc)
qed

lemma readResponse_reads:
  assumes "reads w h s ([], 0, 0) steps = Some (s', chunk', chunkLen', n')"
  shows "readResponse w s h =
         readResponse_loop w h s'
           (concat (map snd steps), chunk', chunkLen', sum_list (map fst steps), n')"
  unfolding readResponse_def using readResponse_loop_reads [OF assms, of "[]" 0] by simp

text \<open>Sizes that are not negative and whose total fits 63 bits add up without wrapping.\<close>

lemma sint_sum_list:
  "\<forall>c \<in> set cs. 0 \<le> sint c \<Longrightarrow> sum_list (map sint cs) < 2 ^ 63 \<Longrightarrow>
   sint (sum_list cs) = sum_list (map sint (cs :: int64 list))"
proof (induction cs)
  case Nil
  show ?case by simp
next
  case (Cons c cs)
  have nonneg: "0 \<le> sum_list (map sint cs)"
    using Cons.prems(1) by (intro sum_list_nonneg) auto
  with Cons have IH: "sint (sum_list cs) = sum_list (map sint cs)" by simp
  have "sint (c + sum_list cs) = signed_take_bit 63 (sint c + sint (sum_list cs))"
    by (simp add: sint_word_ariths)
  also have "\<dots> = sint c + sint (sum_list cs)"
    using Cons.prems nonneg IH
    by (intro signed_take_bit_int_eq_self) auto
  finally show ?case by (simp add: IH)
qed

text \<open>
  While the queries succeed with results that contain \<open>=\<close>, \<^verbatim>\<open>getCookies\<close> appends one
  cookie for each and goes on to the next index.
\<close>

lemma getCookies_loop_enumerates:
  "enumerates w h s i bs = Some s' \<Longrightarrow> \<forall>b \<in> set bs. CHR ''='' \<in> set b \<Longrightarrow>
   getCookies_loop w s h i cs =
   getCookies_loop w s' h (i + word_of_nat (length bs)) (cs @ map cookie_of bs)"
proof (induction bs arbitrary: s i cs)
  case Nil
  then show ?case by simp
next
  case (Cons b bs)
  from Cons.prems(1) obtain s1
    where q: "queryResponse w s h (HTTPQuerySetCookie w) i = Done (Inr b) s1"
      and rest: "enumerates w h s1 (i + 1) bs = Some s'"
    by (auto split: res.splits sum.splits if_splits)
  from Cons.prems(2) have b: "CHR ''='' \<in> set b" and bs: "\<forall>b \<in> set bs. CHR ''='' \<in> set b"
    by simp_all
  have "getCookies_loop w s h i cs = getCookies_loop w s1 h (i + 1) (cs @ [cookie_of b])"
    by (subst getCookies_loop.simps) (simp add: q SplitN2_with [OF b] cookie_of_def)
  also have "\<dots> = getCookies_loop w s' h (i + 1 + word_of_nat (length bs))
                    ((cs @ [cookie_of b]) @ map cookie_of bs)"
    by (rule Cons.IH [OF rest bs])
  finally show ?case by (simp add: ac_simps)
qed

lemma enumerates_append:
  "enumerates w h s i (pre @ b # post) = Some s' \<Longrightarrow>
   \<exists>sa sb. enumerates w h s i pre = Some sa
      \<and> queryResponse w sa h (HTTPQuerySetCookie w) (i + word_of_nat (length pre)) = Done (Inr b) sb"
proof (induction pre arbitrary: s i)
  case Nil
  then show ?case by (auto split: res.splits sum.splits if_splits)
next
  case (Cons x pre)
  from Cons.prems obtain s1
    where q: "queryResponse w s h (HTTPQuerySetCookie w) i = Done (Inr x) s1"
      and rest: "enumerates w h s1 (i + 1) (pre @ b # post) = Some s'"
    by (auto split: res.splits sum.splits if_splits)
  from Cons.IH [OF rest] show ?case by (simp add: q ac_simps)
qed

text \<open>
  With every result of the form \<open>name=value\<close> the enumeration ends at the first failing
  index and returns the cookies in index order.
\<close>

lemma getCookies_enumerates:
  assumes "enumerates w h s 0 bs = Some s'" and "\<forall>b \<in> set bs. CHR ''='' \<in> set b"
    and "queryResponse w s' h (HTTPQuerySetCookie w) (word_of_nat (length bs)) = Done (Inl e) sf"
  shows "getCookies w s h = Some (Done (map cookie_of bs) sf)"
proof -
  have "getCookies w s h = getCookies_loop w s' h (word_of_nat (length bs)) (map cookie_of bs)"
    unfolding getCookies_def using getCookies_loop_enumerates [OF assms(1,2), of "[]"] by simp
  also have "\<dots> = Some (Done (map cookie_of bs) sf)"
    by (subst getCookies_loop.simps) (simp add: assms(3))
  finally show ?thesis .
qed

section \<open>The claims\<close>

subsection \<open>C7: the query helper retries once\<close>




subsection \<open>C6: the chunk reader accumulates the body\<close>

text \<open>
  C6. When the engine reports the non-zero sizes of \<open>steps\<close> one after the other, delivers a
  chunk for each without error and then reports zero, \<^verbatim>\<open>readResponse\<close> returns without
  error: the body is the chunks concatenated in the order read and the content length is
  the sum of the reported sizes. The sum is that of \<^verbatim>\<open>int64\<close>; it is the sum of the numbers
  when no size is negative and the total is below \<open>2 ^ 63\<close>.
\<close>

theorem readResponse_accumulates:
  assumes "reads w h s ([], 0, 0) steps = Some (s', chunk', chunkLen', n')"
    and "InternetQueryDataAvailable w s' h chunkLen' = (None, 0, sf)"
  shows "readResponse w s h =
           Some (Done (Inr (concat (map snd steps), sum_list (map fst steps))) sf)
         \<and> ((\<forall>c \<in> set (map fst steps). 0 \<le> sint c) \<and> sum_list (map sint (map fst steps)) < 2 ^ 63
             \<longrightarrow> sint (sum_list (map fst steps)) = sum_list (map sint (map fst steps)))"
proof
  have "readResponse_loop w h s'
          (concat (map snd steps), chunk', chunkLen', sum_list (map fst steps), n')
        = Some (Done (Inr (concat (map snd steps), sum_list (map fst steps))) sf)"
    by (subst readResponse_loop.simps) (simp add: assms(2))
  then show "readResponse w s h =
      Some (Done (Inr (concat (map snd steps), sum_list (map fst steps))) sf)"
    by (simp add: readResponse_reads [OF assms(1)])
  show "(\<forall>c \<in> set (map fst steps). 0 \<le> sint c) \<and> sum_list (map sint (map fst steps)) < 2 ^ 63
        \<longrightarrow> sint (sum_list (map fst steps)) = sum_list (map sint (map fst steps))"
    using sint_sum_list [of "map fst steps"] by blast
qed

text \<open>The sizes 10, 5 and 0 of the spec: a body of 15 bytes, the two chunks in order.\<close>

theorem readResponse_accumulates_witness:
  "reads (engine script0) 1 (body0, []) ([], 0, 0) [(10, ''0123456789''), (5, ''abcde'')]
     = Some (([], [''avail'', ''read'', ''avail'', ''read'']), ''abcde'', 5, 5)
   \<and> InternetQueryDataAvailable (engine script0) ([], [''avail'', ''read'', ''avail'', ''read'']) 1 5
     = (None, 0, ([], [''avail'', ''read'', ''avail'', ''read'', ''avail'']))
   \<and> readResponse (engine script0) (body0, []) 1
     = Some (Done (Inr (''0123456789abcde'', 15))
         ([], [''avail'', ''read'', ''avail'', ''read'', ''avail'']))
   \<and> sint (15 :: int64) = 10 + 5"
proof -
  have a: "reads (engine script0) 1 (body0, []) ([], 0, 0) [(10, ''0123456789''), (5, ''abcde'')]
     = Some (([], [''avail'', ''read'', ''avail'', ''read'']), ''abcde'', 5, 5)"
    by (simp add: fixture_defs)
  have b: "InternetQueryDataAvailable (engine script0)
             ([], [''avail'', ''read'', ''avail'', ''read'']) 1 5
     = (None, 0, ([], [''avail'', ''read'', ''avail'', ''read'', ''avail'']))"
    by (simp add: fixture_defs)
  from readResponse_accumulates [OF a b] a b show ?thesis by simp
qed

subsection \<open>C5: a failed read fails the whole read\<close>

text \<open>
  C5, as amended. Whenever the size query reports a non-zero count \<open>c\<close>, a read of exactly
  \<open>c\<close> bytes is requested; when that read fails, after any number of chunks read before it,
  \<^verbatim>\<open>readResponse\<close> fails with the \<^verbatim>\<open>failed to read data\<close> error (the spec's ReadError) and
  returns no body. The number of bytes a successful read delivered is not looked at.
\<close>

theorem readResponse_read_failure:
  assumes "reads w h s ([], 0, 0) steps = Some (s', chunk', chunkLen', n')"
    and "InternetQueryDataAvailable w s' h chunkLen' = (None, c, sa)" and "c \<noteq> 0"
    and "InternetReadFile w sa h chunk' c n' = (Some e, d, n'', sb)"
  shows "readResponse w s h = Some (Done (Inl (FailedToReadData e)) sb)"
proof -
  have "readResponse_loop w h s'
          (concat (map snd steps), chunk', chunkLen', sum_list (map fst steps), n')
        = Some (Done (Inl (FailedToReadData e)) sb)"
    by (subst readResponse_loop.simps) (simp add: assms(2,3,4))
  then show ?thesis
    by (simp add: readResponse_reads [OF assms(1)])
qed

text \<open>A body whose second read fails: ten bytes were read, and the caller gets none.\<close>

theorem readResponse_read_failure_witness:
  "reads (engine script0) 1 ([(10, Some ''0123456789''), (5, None)], []) ([], 0, 0)
       [(10, ''0123456789'')]
     = Some (([(5, None)], [''avail'', ''read'']), ''0123456789'', 10, 10)
   \<and> InternetQueryDataAvailable (engine script0) ([(5, None)], [''avail'', ''read'']) 1 10
     = (None, 5, ([(5, None)], [''avail'', ''read'', ''avail'']))
   \<and> InternetReadFile (engine script0) ([(5, None)], [''avail'', ''read'', ''avail'']) 1
       ''0123456789'' 5 10
     = (Some ''read failed'', ''0123456789'', 10, ([], [''avail'', ''read'', ''avail'', ''read'']))
   \<and> readResponse (engine script0) ([(10, Some ''0123456789''), (5, None)], []) 1
     = Some (Done (Inl (FailedToReadData ''read failed''))
         ([], [''avail'', ''read'', ''avail'', ''read'']))"
proof -
  have a: "reads (engine script0) 1 ([(10, Some ''0123456789''), (5, None)], []) ([], 0, 0)
       [(10, ''0123456789'')]
     = Some (([(5, None)], [''avail'', ''read'']), ''0123456789'', 10, 10)"
    by (simp add: fixture_defs)
  have b: "InternetQueryDataAvailable (engine script0) ([(5, None)], [''avail'', ''read'']) 1 10
     = (None, 5, ([(5, None)], [''avail'', ''read'', ''avail'']))"
    by (simp add: fixture_defs)
  have c: "(5 :: int64) \<noteq> 0" by simp
  have d: "InternetReadFile (engine script0) ([(5, None)], [''avail'', ''read'', ''avail'']) 1
       ''0123456789'' 5 10
     = (Some ''read failed'', ''0123456789'', 10, ([], [''avail'', ''read'', ''avail'', ''read'']))"
    by (simp add: fixture_defs)
  from readResponse_read_failure [OF a b c d] a b d show ?thesis by simp
qed

text \<open>
  C5 as the spec states it fails on a short read: the engine reports ten bytes available and
  the read delivers three without error. \<^verbatim>\<open>readResponse\<close> returns the three bytes as the
  body, with content length ten.
\<close>

theorem readResponse_short_read:
  "InternetQueryDataAvailable (engine script0) ([(10, Some ''abc'')], []) 1 0
     = (None, 10, ([(10, Some ''abc'')], [''avail'']))
   \<and> InternetReadFile (engine script0) ([(10, Some ''abc'')], [''avail'']) 1 [] 10 0
     = (None, ''abc'', 3, ([], [''avail'', ''read'']))
   \<and> readResponse (engine script0) ([(10, Some ''abc'')], []) 1
     = Some (Done (Inr (''abc'', 10)) ([], [''avail'', ''read'', ''avail'']))"
  by (simp add: fixture_defs eval_defs)

subsection \<open>C10 and C2: a cookie without a value\<close>

text \<open>
  A \<^verbatim>\<open>Set-Cookie\<close> result that holds no \<open>=\<close> stops the enumeration with a panic, at whatever
  index it comes.
\<close>

lemma getCookies_panics_at:
  assumes "enumerates w h s 0 pre = Some sa" and "\<forall>x \<in> set pre. CHR ''='' \<in> set x"
    and "queryResponse w sa h (HTTPQuerySetCookie w) (word_of_nat (length pre)) = Done (Inr b) sb"
    and "CHR ''='' \<notin> set b"
  shows "getCookies w s h = Some (Panicked IndexOutOfRange)"
proof -
  have "getCookies w s h = getCookies_loop w sa h (word_of_nat (length pre)) (map cookie_of pre)"
    unfolding getCookies_def using getCookies_loop_enumerates [OF assms(1,2), of "[]"] by simp
  also have "\<dots> = Some (Panicked IndexOutOfRange)"
    by (subst getCookies_loop.simps) (simp add: assms(3) SplitN2_without [OF assms(4)])
  finally show ?thesis .
qed

text \<open>
  C10 fails on the code. The claim is that \<^verbatim>\<open>getCookies\<close> reads \<^verbatim>\<open>tmp[0]\<close> and \<^verbatim>\<open>tmp[1]\<close>
  safely for every successful query result. The code does not: when the queries before
  index \<open>length pre\<close> gave well-formed cookies and the query at that index succeeds with
  bytes that hold no \<open>=\<close>, \<^verbatim>\<open>SplitN\<close> returns one part and \<^verbatim>\<open>tmp[1]\<close> panics with an index out
  of range.
\<close>

theorem getCookies_index_out_of_range:
  assumes "enumerates w h s 0 pre = Some sa" and "\<forall>x \<in> set pre. CHR ''='' \<in> set x"
    and "queryResponse w sa h (HTTPQuerySetCookie w) (word_of_nat (length pre)) = Done (Inr b) sb"
    and "CHR ''='' \<notin> set b"
  shows "getCookies w s h = Some (Panicked IndexOutOfRange)"
  using assms by (rule getCookies_panics_at)

text \<open>The first \<^verbatim>\<open>Set-Cookie\<close> header of the response is \<open>novalue\<close>.\<close>

theorem getCookies_index_out_of_range_witness:
  "enumerates (engine script_novalue) 1 ([], []) 0 [] = Some ([], [])
   \<and> queryResponse (engine script_novalue) ([], []) 1 43 0 = Done (Inr ''novalue'') ([], twice [])
   \<and> CHR ''='' \<notin> set ''novalue''
   \<and> getCookies (engine script_novalue) ([], []) 1 = Some (Panicked IndexOutOfRange)"
proof -
  have a: "enumerates (engine script_novalue) 1 ([], []) 0 [] = Some ([], [])"
    by simp
  have b: "\<forall>x \<in> set ([] :: string list). CHR ''='' \<in> set x"
    by simp
  have q: "queryResponse (engine script_novalue) ([], []) 1 43 0
             = Done (Inr ''novalue'') ([], twice [])"
    by (simp add: fixture_defs eval_defs)
  then have c: "queryResponse (engine script_novalue) ([], []) 1
      (HTTPQuerySetCookie (engine script_novalue)) (word_of_nat (length ([] :: string list)))
      = Done (Inr ''novalue'') ([], twice [])"
    by (simp add: engine_consts)
  have d: "CHR ''='' \<notin> set ''novalue''"
    by simp
  from getCookies_index_out_of_range [OF a b c d] a q d show ?thesis by simp
qed

text \<open>
  C2 fails on the code for the same reason. The queries at the indices below \<open>length bs\<close>
  succeed and the query at \<open>length bs\<close> fails, as the claim asks; one of the results holds
  no \<open>=\<close>. \<^verbatim>\<open>getCookies\<close> does not return \<open>length bs\<close> cookies: it panics.
\<close>

theorem getCookies_panics_before_end:
  assumes "enumerates w h s 0 bs = Some s'"
    and "queryResponse w s' h (HTTPQuerySetCookie w) (word_of_nat (length bs)) = Done (Inl e) sf"
    and "\<exists>b \<in> set bs. CHR ''='' \<notin> set b"
  shows "getCookies w s h = Some (Panicked IndexOutOfRange)"
proof -
  from split_list_first_prop [OF assms(3)] obtain pre b post
    where bs: "bs = pre @ b # post" and b: "CHR ''='' \<notin> set b"
      and pre: "\<forall>x \<in> set pre. \<not> CHR ''='' \<notin> set x"
    by blast
  from assms(1) bs obtain sa sb where "enumerates w h s 0 pre = Some sa"
    and "queryResponse w sa h (HTTPQuerySetCookie w) (word_of_nat (length pre)) = Done (Inr b) sb"
    using enumerates_append [of w h s 0 pre b post s'] by auto
  with pre b show ?thesis
    by (intro getCookies_panics_at) auto
qed

text \<open>
  The response sets \<open>A=1\<close> and then \<open>novalue\<close>; the query at index 2 fails. The claim
  promises two cookies.
\<close>

theorem getCookies_panics_before_end_witness:
  "enumerates (engine script_novalue_later) 1 ([], []) 0 [''A=1'', ''novalue'']
     = Some ([], twice (twice []))
   \<and> queryResponse (engine script_novalue_later) ([], twice (twice [])) 1 43 2
     = Done (Inl (FailedToQueryInfo ''header not found'')) ([], twice (twice (twice [])))
   \<and> CHR ''='' \<notin> set ''novalue''
   \<and> getCookies (engine script_novalue_later) ([], []) 1 = Some (Panicked IndexOutOfRange)"
proof -
  have a: "enumerates (engine script_novalue_later) 1 ([], []) 0 [''A=1'', ''novalue'']
     = Some ([], twice (twice []))"
    by (simp add: fixture_defs eval_defs)
  have q: "queryResponse (engine script_novalue_later) ([], twice (twice [])) 1 43 2
     = Done (Inl (FailedToQueryInfo ''header not found'')) ([], twice (twice (twice [])))"
    by (simp add: fixture_defs eval_defs)
  then have b: "queryResponse (engine script_novalue_later) ([], twice (twice [])) 1
      (HTTPQuerySetCookie (engine script_novalue_later))
      (word_of_nat (length [''A=1'', ''novalue'']))
     = Done (Inl (FailedToQueryInfo ''header not found'')) ([], twice (twice (twice [])))"
    by (simp add: engine_consts)
  have d: "CHR ''='' \<notin> set ''novalue''"
    by simp
  then have c: "\<exists>b \<in> set [''A=1'', ''novalue'']. CHR ''='' \<notin> set b"
    by simp
  from getCookies_panics_before_end [OF a b c] a q d show ?thesis by simp
qed

subsection \<open>Evaluating the other scripts\<close>

lemma ParseInt_cases:
  "ParseInt [] = Inl ErrSyntax" "ParseInt ''2x0'' = Inl ErrSyntax" "ParseInt ''404'' = Inr 404"
  "ParseInt ''9223372036854775808'' = Inl ErrRange"
  by (simp_all add: eval_defs)

lemma run_same_name_build:
  "buildResponse (engine script_same_name) g (body0, []) 1 request0
     = Some (Done (Inr (response0\<lparr>cookies := Cookies request0 @ [\<lparr>Name = ''A'', Value = ''9''\<rparr>]\<rparr>))
         ([\<lparr>Name = ''A'', Value = ''9''\<rparr>], [], log0))"
proof -
  have qa: "queryResponse (engine script_same_name) (body0, []) 1 19 0
      = Done (Inr ''200'') (body0, twice [])"
    by (simp add: fixture_defs eval_defs)
  have qb: "queryResponse (engine script_same_name) (body0, twice []) 1 20 0
      = Done (Inr ''OK'') (body0, twice (twice []))"
    by (simp add: fixture_defs eval_defs)
  have cs: "getCookies (engine script_same_name) (body0, twice (twice [])) 1
      = Some (Done [\<lparr>Name = ''A'', Value = ''9''\<rparr>] (body0, twice (twice (twice (twice [])))))"
    by (simp add: fixture_defs eval_defs)
  have hs: "getHeaders (engine script_same_name) (body0, twice (twice (twice (twice [])))) 1
      = Done (Inr (''HTTP/1.1'', 1, 1, [''Server'' \<mapsto> [''x'']]))
          (body0, twice (twice (twice (twice (twice [])))))"
    by (simp add: fixture_defs eval_defs)
  have body: "readResponse (engine script_same_name)
        (body0, twice (twice (twice (twice (twice []))))) 1
      = Some (Done (Inr (''0123456789abcde'', 15)) ([], log0))"
    by (simp add: fixture_defs eval_defs)
  show ?thesis
    unfolding buildResponse_def engine_consts
    by (simp add: qa ParseInt_200 qb cs hs body)
      (simp add: response0_def request0_def AddCookie_def Let_def)
qed

lemma run_same_name_queries:
  "queryResponse (engine script_same_name) (body0, []) 1 19 0
      = Done (Inr ''200'') (body0, twice [])"
  "queryResponse (engine script_same_name) (body0, twice []) 1 20 0
      = Done (Inr ''OK'') (body0, twice (twice []))"
  "getCookies (engine script_same_name) (body0, twice (twice [])) 1
      = Some (Done [\<lparr>Name = ''A'', Value = ''9''\<rparr>] (body0, twice (twice (twice (twice [])))))"
  by (simp_all add: fixture_defs eval_defs)

lemma run_missing_code:
  "queryResponse (engine script_missing) (body0, []) 1 19 0
     = Done (Inl (FailedToQueryInfo ''header not found'')) (body0, twice [])"
  by (simp add: fixture_defs eval_defs)

lemma run_invalid_code:
  "queryResponse (engine script_invalid) (body0, []) 1 19 0
     = Done (Inr ''2x0'') (body0, twice [])"
  by (simp add: fixture_defs eval_defs)

subsection \<open>What a successful buildResponse went through\<close>

lemma foldl_AddCookie: "foldl AddCookie res cs = res\<lparr>cookies := cookies res @ cs\<rparr>"
  by (induction cs arbitrary: res) (simp_all add: AddCookie_def)

lemma buildResponse_success:
  assumes "buildResponse w g s h req = Some (Done (Inr res) (g', sf))"
  obtains b sa b' sb sc proto major minor hdrs sd body contentLen where
    "queryResponse w s h (HTTPQueryStatusCode w) 0 = Done (Inr b) sa"
    "ParseInt b = Inr (StatusCode res)"
    "queryResponse w sa h (HTTPQueryStatusText w) 0 = Done (Inr b') sb"
    "getCookies w sb h = Some (Done g' sc)"
    "getHeaders w sc h = Done (Inr (proto, major, minor, hdrs)) sd"
    "readResponse w sd h = Some (Done (Inr (body, contentLen)) sf)"
    "cookies res = Cookies req @ g'"
  using assms
  by (auto simp: buildResponse_def Let_def foldl_AddCookie
      split: res.splits sum.splits option.splits prod.splits)

subsection \<open>C3: the order of the cookies\<close>

text \<open>
  C3. Whenever \<^verbatim>\<open>buildResponse\<close> returns a response, its cookie list is the request's
  cookies in their order followed by the cookies that \<^verbatim>\<open>getCookies\<close> extracted, in the order
  of extraction. Nothing is removed: a name may occur twice.
\<close>

theorem buildResponse_cookie_order:
  assumes "buildResponse w g s h req = Some (Done (Inr res) (g', sf))"
    and "queryResponse w s h (HTTPQueryStatusCode w) 0 = Done (Inr b) sa"
    and "queryResponse w sa h (HTTPQueryStatusText w) 0 = Done (Inr b') sb"
    and "getCookies w sb h = Some (Done cs sc)"
  shows "cookies res = Cookies req @ cs"
  using assms(1)
  by (rule buildResponse_success) (use assms(2-) in auto)

text \<open>
  The request's cookies \<open>A=1\<close> and \<open>B=2\<close> with the response's \<open>C=3\<close>, and with the response's
  \<open>A=9\<close>, which stays next to \<open>A=1\<close>.
\<close>

theorem buildResponse_cookie_order_witness:
  "buildResponse (engine script0) [] (body0, []) 1 request0
     = Some (Done (Inr response0) ([\<lparr>Name = ''C'', Value = ''3''\<rparr>], [], log0))
   \<and> getCookies (engine script0) (body0, twice (twice [])) 1
     = Some (Done [\<lparr>Name = ''C'', Value = ''3''\<rparr>] (body0, twice (twice (twice (twice [])))))
   \<and> cookies response0
     = [\<lparr>Name = ''A'', Value = ''1''\<rparr>, \<lparr>Name = ''B'', Value = ''2''\<rparr>, \<lparr>Name = ''C'', Value = ''3''\<rparr>]
   \<and> getCookies (engine script_same_name) (body0, twice (twice [])) 1
     = Some (Done [\<lparr>Name = ''A'', Value = ''9''\<rparr>] (body0, twice (twice (twice (twice [])))))
   \<and> cookies (response0\<lparr>cookies := Cookies request0 @ [\<lparr>Name = ''A'', Value = ''9''\<rparr>]\<rparr>)
     = [\<lparr>Name = ''A'', Value = ''1''\<rparr>, \<lparr>Name = ''B'', Value = ''2''\<rparr>, \<lparr>Name = ''A'', Value = ''9''\<rparr>]"
proof -
  note first =
    buildResponse_cookie_order [of "engine script0" "[]" "(body0, [])" 1 request0,
      OF run0_build
        run0_code [folded engine_consts(1) [of script0]]
        run0_text [folded engine_consts(2) [of script0]]
        run0_cookies]
  note second =
    buildResponse_cookie_order [of "engine script_same_name" "[]" "(body0, [])" 1 request0,
      OF run_same_name_build
        run_same_name_queries(1) [folded engine_consts(1) [of script_same_name]]
        run_same_name_queries(2) [folded engine_consts(2) [of script_same_name]]
        run_same_name_queries(3)]
  have r: "Cookies request0 = [\<lparr>Name = ''A'', Value = ''1''\<rparr>, \<lparr>Name = ''B'', Value = ''2''\<rparr>]"
    by (simp add: request0_def)
  from first second show ?thesis
    by (simp add: run0_build run0_cookies run_same_name_queries r)
qed

subsection \<open>C1: the package variable\<close>

text \<open>
  C1, as amended. What \<^verbatim>\<open>buildResponse\<close> returns, the response with its cookie list or the
  error, and the state it leaves the engine in, depend only on the arguments of the call
  and the engine: the value that earlier calls left in the package variable \<^verbatim>\<open>cookies\<close>
  has no effect on them. The variable itself is kept: once \<^verbatim>\<open>getCookies\<close> has returned, a
  call that returns leaves the cookies extracted from this response in it.
\<close>

theorem buildResponse_cookies_var:
  "returned (buildResponse w g s h req) = returned (buildResponse w g' s h req)
   \<and> (queryResponse w s h (HTTPQueryStatusCode w) 0 = Done (Inr b) sa \<and> ParseInt b = Inr code
        \<and> queryResponse w sa h (HTTPQueryStatusText w) 0 = Done (Inr b') sb
        \<and> getCookies w sb h = Some (Done cs sc)
        \<and> buildResponse w g s h req = Some (Done r (ga, sf))
      \<longrightarrow> ga = cs)"
  by (auto simp: buildResponse_def Let_def split: res.splits sum.splits option.splits prod.splits)

text \<open>
  Two calls on the same response, one with the variable empty and one with a cookie of an
  earlier response in it.
\<close>

theorem buildResponse_cookies_var_witness:
  "queryResponse (engine script0) (body0, []) 1 19 0 = Done (Inr ''200'') (body0, twice [])
   \<and> ParseInt ''200'' = Inr 200
   \<and> queryResponse (engine script0) (body0, twice []) 1 20 0
       = Done (Inr ''OK'') (body0, twice (twice []))
   \<and> getCookies (engine script0) (body0, twice (twice [])) 1
       = Some (Done [\<lparr>Name = ''C'', Value = ''3''\<rparr>] (body0, twice (twice (twice (twice [])))))
   \<and> buildResponse (engine script0) [] (body0, []) 1 request0
       = Some (Done (Inr response0) ([\<lparr>Name = ''C'', Value = ''3''\<rparr>], [], log0))
   \<and> returned (buildResponse (engine script0) [] (body0, []) 1 request0)
       = returned (buildResponse (engine script0) [\<lparr>Name = ''old'', Value = ''x''\<rparr>]
           (body0, []) 1 request0)"
  using buildResponse_cookies_var [where w = "engine script0" and g = "[]"
      and g' = "[\<lparr>Name = ''old'', Value = ''x''\<rparr>]" and s = "(body0, [])" and h = 1
      and req = request0 and b = "''200''" and sa = "(body0, twice [])" and code = 200
      and b' = "''OK''" and sb = "(body0, twice (twice []))"
      and cs = "[\<lparr>Name = ''C'', Value = ''3''\<rparr>]"
      and sc = "(body0, twice (twice (twice (twice []))))" and r = "Inr response0"
      and ga = "[\<lparr>Name = ''C'', Value = ''3''\<rparr>]" and sf = "([], log0)"]
  by (simp add: run0_code ParseInt_200 run0_text run0_cookies run0_build)

text \<open>
  C1 as the spec states it fails: the package variable does retain a response's cookies
  after the call has returned. After a call on \<open>script0\<close> it holds \<open>C=3\<close>, and a later call
  whose status query fails returns with that cookie still in it.
\<close>

theorem cookies_var_retains_cookies:
  "cookies_var_after (buildResponse (engine script0) [] (body0, []) 1 request0)
     = Some [\<lparr>Name = ''C'', Value = ''3''\<rparr>]
   \<and> cookies_var_after
       (buildResponse (engine script_missing) [\<lparr>Name = ''C'', Value = ''3''\<rparr>] (body0, []) 1 request0)
     = Some [\<lparr>Name = ''C'', Value = ''3''\<rparr>]"
proof
  show "cookies_var_after (buildResponse (engine script0) [] (body0, []) 1 request0)
     = Some [\<lparr>Name = ''C'', Value = ''3''\<rparr>]"
    by (simp add: run0_build)
  show "cookies_var_after
       (buildResponse (engine script_missing) [\<lparr>Name = ''C'', Value = ''3''\<rparr>] (body0, []) 1 request0)
     = Some [\<lparr>Name = ''C'', Value = ''3''\<rparr>]"
    by (simp add: buildResponse_def engine_consts run_missing_code)
qed

subsection \<open>C8: the status code\<close>

text \<open>An error that \<^verbatim>\<open>queryResponse\<close> returns is always its \<^verbatim>\<open>failed to query info\<close> error.\<close>

lemma queryResponse_error:
  "queryResponse w s h info idx = Done (Inl e) sa \<Longrightarrow> \<exists>m. e = FailedToQueryInfo m"
  by (auto simp: queryResponse_def Let_def split: prod.splits option.splits if_splits)

text \<open>
  C8, as amended. The status code query of \<^verbatim>\<open>buildResponse\<close> is mandatory. When the query
  itself fails, the status being missing, the call returns the query helper's error
  unchanged, the \<^verbatim>\<open>failed to query info\<close> error (the spec's QueryInfoError), and no response.
  When the text the query returns is not accepted by \<^verbatim>\<open>strconv.ParseInt(status, 10, 64)\<close>,
  the call returns the \<^verbatim>\<open>status ... invalid\<close> error (the spec's ProtocolError) and no
  response. When the call returns a response, its \<^verbatim>\<open>StatusCode\<close> is the decimal value
  parsed from the queried text.
\<close>

theorem buildResponse_status_mandatory:
  "(queryResponse w s h (HTTPQueryStatusCode w) 0 = Done (Inl e) sa
      \<longrightarrow> buildResponse w g s h req = Some (Done (Inl e) (g, sa))
          \<and> (\<exists>m. e = FailedToQueryInfo m))
   \<and> (queryResponse w s h (HTTPQueryStatusCode w) 0 = Done (Inr b) sa \<and> ParseInt b = Inl ne
      \<longrightarrow> buildResponse w g s h req = Some (Done (Inl (StatusInvalid b ne)) (g, sa)))
   \<and> (queryResponse w s h (HTTPQueryStatusCode w) 0 = Done (Inr b) sa
        \<and> buildResponse w g s h req = Some (Done (Inr res) st)
      \<longrightarrow> ParseInt b = Inr (StatusCode res))"
proof (intro conjI impI)
  assume "queryResponse w s h (HTTPQueryStatusCode w) 0 = Done (Inr b) sa
    \<and> buildResponse w g s h req = Some (Done (Inr res) st)"
  then have q: "queryResponse w s h (HTTPQueryStatusCode w) 0 = Done (Inr b) sa"
    and "buildResponse w g s h req = Some (Done (Inr res) (fst st, snd st))" by simp_all
  from this(2) show "ParseInt b = Inr (StatusCode res)"
    by (rule buildResponse_success) (use q in auto)
next
  assume "queryResponse w s h (HTTPQueryStatusCode w) 0 = Done (Inl e) sa"
  then show "\<exists>m. e = FailedToQueryInfo m"
    by (rule queryResponse_error)
qed (simp_all add: buildResponse_def)

text \<open>A response without a status code, one with the status \<open>2x0\<close>, and one with \<open>200\<close>.\<close>

theorem buildResponse_status_mandatory_witness:
  "queryResponse (engine script_missing) (body0, []) 1 19 0
     = Done (Inl (FailedToQueryInfo ''header not found'')) (body0, twice [])
   \<and> buildResponse (engine script_missing) [] (body0, []) 1 request0
     = Some (Done (Inl (FailedToQueryInfo ''header not found'')) ([], body0, twice []))
   \<and> queryResponse (engine script_invalid) (body0, []) 1 19 0
     = Done (Inr ''2x0'') (body0, twice [])
   \<and> ParseInt ''2x0'' = Inl ErrSyntax
   \<and> buildResponse (engine script_invalid) [] (body0, []) 1 request0
     = Some (Done (Inl (StatusInvalid ''2x0'' ErrSyntax)) ([], body0, twice []))
   \<and> queryResponse (engine script0) (body0, []) 1 19 0 = Done (Inr ''200'') (body0, twice [])
   \<and> buildResponse (engine script0) [] (body0, []) 1 request0
     = Some (Done (Inr response0) ([\<lparr>Name = ''C'', Value = ''3''\<rparr>], [], log0))
   \<and> ParseInt ''200'' = Inr (StatusCode response0)
   \<and> StatusCode response0 = 200"
  using
    buildResponse_status_mandatory [where w = "engine script_missing" and s = "(body0, [])"
      and h = 1 and e = "FailedToQueryInfo ''header not found''" and sa = "(body0, twice [])"
      and g = "[]" and req = request0 and b = "[]" and ne = ErrSyntax and res = response0
      and st = "([], [], [])"]
    buildResponse_status_mandatory [where w = "engine script_invalid" and s = "(body0, [])"
      and h = 1 and e = "FailedToQueryInfo []" and sa = "(body0, twice [])"
      and g = "[]" and req = request0 and b = "''2x0''" and ne = ErrSyntax and res = response0
      and st = "([], [], [])"]
    buildResponse_status_mandatory [where w = "engine script0" and s = "(body0, [])"
      and h = 1 and e = "FailedToQueryInfo []" and sa = "(body0, twice [])"
      and g = "[]" and req = request0 and b = "''200''" and ne = ErrSyntax and res = response0
      and st = "([\<lparr>Name = ''C'', Value = ''3''\<rparr>], [], log0)"]
  by (simp add: engine_consts run_missing_code run_invalid_code ParseInt_cases run0_code
      run0_build)
    (simp add: response0_def)

text \<open>
  C8 as the spec states it fails on a missing status: the status code query fails, and what
  \<^verbatim>\<open>buildResponse\<close> returns is not an error of its own about the status but the error of
  the query helper as it is, the same \<^verbatim>\<open>failed to query info\<close> error that \<^verbatim>\<open>getHeaders\<close>
  returns for a header block that is missing.
\<close>

theorem buildResponse_missing_status:
  "queryResponse (engine script_missing) (body0, []) 1
       (HTTPQueryStatusCode (engine script_missing)) 0
     = Done (Inl (FailedToQueryInfo ''header not found'')) (body0, twice [])
   \<and> buildResponse (engine script_missing) [] (body0, []) 1 request0
     = Some (Done (Inl (FailedToQueryInfo ''header not found'')) ([], body0, twice []))
   \<and> getHeaders (engine script_missing) (body0, []) 1
     = Done (Inl (FailedToQueryInfo ''header not found'')) (body0, twice [])"
  by (simp add: buildResponse_def getHeaders_def engine_consts run_missing_code)
    (simp add: fixture_defs eval_defs)

subsection \<open>C4: header lines that are dropped\<close>

lemma getHeaders_lines_ignorable:
  "ignorable hdr \<Longrightarrow> getHeaders_lines (hdr # rest) st = getHeaders_lines rest st"
  by (cases st) (auto simp: ignorable_def split: list.splits)

lemma getHeaders_lines_filter:
  "getHeaders_lines (filter (\<lambda>l. \<not> ignorable l) ls) st = getHeaders_lines ls st"
proof (induction ls arbitrary: st)
  case Nil
  show ?case by simp
next
  case (Cons hdr ls)
  show ?case
  proof (cases "ignorable hdr")
    case True
    then show ?thesis by (simp add: Cons.IH getHeaders_lines_ignorable)
  next
    case False
    obtain proto major minor hdrs where st: "st = (proto, major, minor, hdrs)"
      by (cases st)
    from False show ?thesis
      by (simp add: st Cons.IH Let_def split: list.split sum.split)
  qed
qed

text \<open>
  C4, as amended. A line of the raw header block that does not split in two on \<open>'': ''\<close>
  and does not begin with \<open>HTTP\<close> is dropped without a trace. For every block that the query
  returns, \<^verbatim>\<open>getHeaders\<close> returns what its loop over the lines returns on the other lines
  alone, be it the parsed headers or an error that one of those raised. So two blocks that
  differ in such lines only give the same result, and a block of such lines only parses
  without error, to no protocol and no header. Such a line is never the cause of an error.
\<close>

theorem getHeaders_drops_ignorable:
  assumes "queryResponse w s h (HTTPQueryRawHeadersCRLF w) 0 = Done (Inr b) sf"
  shows "getHeaders w s h =
           (case getHeaders_lines
                   (filter (\<lambda>l. \<not> ignorable l) (Split b [CHR 0x0D, CHR 0x0A]))
                   ([], 0, 0, Map.empty) of
              Panic p \<Rightarrow> Panicked p
            | Return r \<Rightarrow> Done r sf)
         \<and> (queryResponse w' s' h' (HTTPQueryRawHeadersCRLF w') 0 = Done (Inr b') sf
              \<and> filter (\<lambda>l. \<not> ignorable l) (Split b' [CHR 0x0D, CHR 0x0A])
                  = filter (\<lambda>l. \<not> ignorable l) (Split b [CHR 0x0D, CHR 0x0A])
            \<longrightarrow> getHeaders w s h = getHeaders w' s' h')
         \<and> ((\<forall>l \<in> set (Split b [CHR 0x0D, CHR 0x0A]). ignorable l)
            \<longrightarrow> getHeaders w s h = Done (Inr ([], 0, 0, Map.empty)) sf)"
proof (intro conjI impI)
  show first: "getHeaders w s h =
           (case getHeaders_lines
                   (filter (\<lambda>l. \<not> ignorable l) (Split b [CHR 0x0D, CHR 0x0A]))
                   ([], 0, 0, Map.empty) of
              Panic p \<Rightarrow> Panicked p
            | Return r \<Rightarrow> Done r sf)"
    by (simp add: getHeaders_def assms getHeaders_lines_filter)
  {
    assume "queryResponse w' s' h' (HTTPQueryRawHeadersCRLF w') 0 = Done (Inr b') sf
              \<and> filter (\<lambda>l. \<not> ignorable l) (Split b' [CHR 0x0D, CHR 0x0A])
                  = filter (\<lambda>l. \<not> ignorable l) (Split b [CHR 0x0D, CHR 0x0A])"
    then have "getHeaders w' s' h' =
           (case getHeaders_lines
                   (filter (\<lambda>l. \<not> ignorable l) (Split b [CHR 0x0D, CHR 0x0A]))
                   ([], 0, 0, Map.empty) of
              Panic p \<Rightarrow> Panicked p
            | Return r \<Rightarrow> Done r sf)"
      by (simp add: getHeaders_def getHeaders_lines_filter [of "Split b' [CHR 0x0D, CHR 0x0A]", symmetric])
    with first show "getHeaders w s h = getHeaders w' s' h'"
      by simp
  }
  {
    assume "\<forall>l \<in> set (Split b [CHR 0x0D, CHR 0x0A]). ignorable l"
    then have "filter (\<lambda>l. \<not> ignorable l) (Split b [CHR 0x0D, CHR 0x0A]) = []"
      by (simp add: filter_empty_conv)
    with first show "getHeaders w s h = Done (Inr ([], 0, 0, Map.empty)) sf"
      by simp
  }
qed

text \<open>
  The block of \<open>script0\<close> has the line \<open>junk\<close> and two empty lines after its status line and
  its one header; the block of \<open>script_clean\<close> has the status line and the header only. The
  block of \<open>script_junk\<close> is the line \<open>junk\<close>.
\<close>

theorem getHeaders_drops_ignorable_witness:
  "queryResponse (engine script0) ([], []) 1 22 0 = Done (Inr raw0) ([], twice [])
   \<and> queryResponse (engine script_clean) ([], []) 1 22 0
       = Done (Inr (''HTTP/1.1 200 OK'' @ CRLF @ ''Server: x'')) ([], twice [])
   \<and> Split raw0 CRLF = [''HTTP/1.1 200 OK'', ''Server: x'', ''junk'', [], []]
   \<and> ignorable ''junk'' \<and> ignorable []
   \<and> Split (''HTTP/1.1 200 OK'' @ CRLF @ ''Server: x'') CRLF = [''HTTP/1.1 200 OK'', ''Server: x'']
   \<and> getHeaders (engine script0) ([], []) 1 = getHeaders (engine script_clean) ([], []) 1
   \<and> queryResponse (engine script_junk) ([], []) 1 22 0 = Done (Inr ''junk'') ([], twice [])
   \<and> Split ''junk'' CRLF = [''junk'']
   \<and> getHeaders (engine script_junk) ([], []) 1 = Done (Inr ([], 0, 0, Map.empty)) ([], twice [])"
proof -
  have a: "queryResponse (engine script0) ([], []) 1 22 0 = Done (Inr raw0) ([], twice [])"
    by (simp add: fixture_defs eval_defs)
  have b: "queryResponse (engine script_clean) ([], []) 1 22 0
       = Done (Inr (''HTTP/1.1 200 OK'' @ CRLF @ ''Server: x'')) ([], twice [])"
    by (simp add: fixture_defs eval_defs)
  have j: "queryResponse (engine script_junk) ([], []) 1 22 0 = Done (Inr ''junk'') ([], twice [])"
    by (simp add: fixture_defs eval_defs)
  have c: "Split raw0 CRLF = [''HTTP/1.1 200 OK'', ''Server: x'', ''junk'', [], []]"
    by (simp add: raw0_def CRLF_def Split_def)
  have d: "Split (''HTTP/1.1 200 OK'' @ CRLF @ ''Server: x'') CRLF
       = [''HTTP/1.1 200 OK'', ''Server: x'']"
    by (simp add: CRLF_def Split_def)
  have k: "Split ''junk'' CRLF = [''junk'']"
    by (simp add: CRLF_def Split_def)
  have i: "ignorable ''junk''" "ignorable []"
       "\<not> ignorable ''HTTP/1.1 200 OK''" "\<not> ignorable ''Server: x''"
    by (simp_all add: ignorable_def SplitN2_def HasPrefix_def)
  have e: "filter (\<lambda>l. \<not> ignorable l)
             (Split (''HTTP/1.1 200 OK'' @ CRLF @ ''Server: x'') [CHR 0x0D, CHR 0x0A])
       = filter (\<lambda>l. \<not> ignorable l) (Split raw0 [CHR 0x0D, CHR 0x0A])"
    using c d i by (simp add: CRLF_def)
  have l: "\<forall>l \<in> set (Split ''junk'' [CHR 0x0D, CHR 0x0A]). ignorable l"
    using k i by (simp add: CRLF_def)
  note pair =
    getHeaders_drops_ignorable
      [where w' = "engine script_clean" and s' = "([], [])" and h' = 1
         and b' = "''HTTP/1.1 200 OK'' @ CRLF @ ''Server: x''",
       OF a [folded engine_consts(4) [of script0]]]
  note alone =
    getHeaders_drops_ignorable
      [where w' = "engine script_junk" and s' = "([], [])" and h' = 1 and b' = "''junk''",
       OF j [folded engine_consts(4) [of script_junk]]]
  from pair b [folded engine_consts(4) [of script_clean]] e
  have p: "getHeaders (engine script0) ([], []) 1 = getHeaders (engine script_clean) ([], []) 1"
    by blast
  from alone l
  have q: "getHeaders (engine script_junk) ([], []) 1
       = Done (Inr ([], 0, 0, Map.empty)) ([], twice [])"
    by blast
  from a b c d i j k p q show ?thesis by simp
qed

text \<open>
  C4 as the spec states it fails on a line that begins with \<open>HTTP\<close>: the line \<open>HTTP/a.b\<close>
  does not split in two on \<open>'': ''\<close>, and it is not dropped: the parse fails on it.
\<close>

theorem getHeaders_bad_version_line:
  "length (SplitN2 ''HTTP/a.b'' '': '') = 1
   \<and> getHeaders (engine script_bad_version) ([], []) 1
       = Done (Inl (InvalidHTTPVersion ErrSyntax)) ([], twice [])"
  by (simp add: fixture_defs eval_defs)

subsection \<open>C9: attaching cookies and headers\<close>

lemma addCookies_fails:
  "addCookies w s h pre = (None, sa) \<Longrightarrow>
   HTTPAddRequestHeadersW w sa h (''Cookie: '' @ Name c @ ''='' @ Value c) (HTTPAddreqFlagAdd w)
     = (Some e, sb) \<Longrightarrow>
   addCookies w s h (pre @ c # post) = (Some e, sb)"
  by (induction pre arbitrary: s) (auto split: prod.splits option.splits)

lemma addHeaders_fails:
  "addHeaders w s h pre = (None, sa) \<Longrightarrow>
   HTTPAddRequestHeadersW w sa h (k @ '': '' @ v) (HTTPAddreqFlagAdd w OR HTTPAddreqFlagReplace w)
     = (Some e, sb) \<Longrightarrow>
   addHeaders w s h (pre @ (k, v) # post) = (Some e, sb)"
  by (induction pre arbitrary: s) (auto split: prod.splits option.splits)

text \<open>
  C9, as amended. In \<^verbatim>\<open>sendRequest\<close> the first failure to attach one of the request's cookies,
  or one of its headers after all cookies went in, ends the call at once with the
  \<^verbatim>\<open>failed to add cookies\<close> or \<^verbatim>\<open>failed to add request headers\<close> error (the spec's
  HeaderError). The engine is left as the failing call left it: what was attached before
  stays attached, nothing after it is attached and the request is not transmitted. The
  result of attaching the sentinel \<^verbatim>\<open>Cookie: ignore=ignore\<close> is discarded: whether it
  failed or not, the call goes on, and when everything after it succeeds the request is
  sent and the call returns no error.
\<close>

theorem sendRequest_fails_fast:
  "(HTTPAddRequestHeadersW w s h ''Cookie: ignore=ignore'' (HTTPAddreqFlagAddIfNew w) = (ign, sa)
      \<and> Cookies r = pre @ c # post \<and> addCookies w sa h pre = (None, sb)
      \<and> HTTPAddRequestHeadersW w sb h (''Cookie: '' @ Name c @ ''='' @ Value c)
            (HTTPAddreqFlagAdd w) = (Some e, sc)
      \<longrightarrow> sendRequest w s h r = (Some (FailedToAddCookies e), sc))
   \<and> (HTTPAddRequestHeadersW w s h ''Cookie: ignore=ignore'' (HTTPAddreqFlagAddIfNew w) = (ign, sa)
      \<and> addCookies w sa h (Cookies r) = (None, sb)
      \<and> Headers r = hpre @ (k, v) # hpost \<and> addHeaders w sb h hpre = (None, sc)
      \<and> HTTPAddRequestHeadersW w sc h (k @ '': '' @ v)
            (HTTPAddreqFlagAdd w OR HTTPAddreqFlagReplace w) = (Some e, sd)
      \<longrightarrow> sendRequest w s h r = (Some (FailedToAddRequestHeaders e), sd))
   \<and> (HTTPAddRequestHeadersW w s h ''Cookie: ignore=ignore'' (HTTPAddreqFlagAddIfNew w) = (ign, sa)
      \<and> addCookies w sa h (Cookies r) = (None, sb)
      \<and> addHeaders w sb h (Headers r) = (None, sc)
      \<and> HTTPSendRequestW w sc h [] 0 (Body r) (word_of_nat (length (Body r))) = (None, sd)
      \<longrightarrow> sendRequest w s h r = (None, sd))"
  by (auto simp: sendRequest_def addCookies_fails addHeaders_fails)

text \<open>
  An engine that refuses the cookie \<open>B=2\<close>, one that refuses the header \<open>Accept\<close>, and one
  that refuses nothing. The log shows what was attached, and \<open>send\<close> only in the last.
\<close>

theorem sendRequest_fails_fast_witness:
  "HTTPAddRequestHeadersW (engine (refusing ''Cookie: B=2'')) ([], [''added Cookie: ignore=ignore'',
        ''added Cookie: A=1'']) 1 ''Cookie: B=2'' 0x20000000
     = (Some ''rejected'', ([], [''added Cookie: ignore=ignore'', ''added Cookie: A=1'',
          ''refused Cookie: B=2'']))
   \<and> sendRequest (engine (refusing ''Cookie: B=2'')) ([], []) 1 request0
     = (Some (FailedToAddCookies ''rejected''),
        ([], [''added Cookie: ignore=ignore'', ''added Cookie: A=1'', ''refused Cookie: B=2'']))
   \<and> addCookies (engine (refusing ''Accept: text/plain'')) ([], [''added Cookie: ignore=ignore''])
        1 (Cookies request0)
     = (None, ([], [''added Cookie: ignore=ignore'', ''added Cookie: A=1'', ''added Cookie: B=2'']))
   \<and> sendRequest (engine (refusing ''Accept: text/plain'')) ([], []) 1 request0
     = (Some (FailedToAddRequestHeaders ''rejected''),
        ([], [''added Cookie: ignore=ignore'', ''added Cookie: A=1'', ''added Cookie: B=2'',
              ''refused Accept: text/plain'']))
   \<and> sendRequest (engine script0) ([], []) 1 request0
     = (None,
        ([], [''added Cookie: ignore=ignore'', ''added Cookie: A=1'', ''added Cookie: B=2'',
              ''added Accept: text/plain'', ''send'']))"
  using
    sendRequest_fails_fast [where w = "engine (refusing ''Cookie: B=2'')" and s = "([], [])"
      and h = 1 and r = request0 and ign = None and sa = "([], [''added Cookie: ignore=ignore''])"
      and pre = "[\<lparr>Name = ''A'', Value = ''1''\<rparr>]" and c = "\<lparr>Name = ''B'', Value = ''2''\<rparr>"
      and post = "[]"
      and sb = "([], [''added Cookie: ignore=ignore'', ''added Cookie: A=1''])"
      and e = "''rejected''"
      and sc = "([], [''added Cookie: ignore=ignore'', ''added Cookie: A=1'',
                      ''refused Cookie: B=2''])"
      and hpre = "[]" and k = "[]" and v = "[]" and hpost = "[]" and sd = "([], [])"]
    sendRequest_fails_fast [where w = "engine (refusing ''Accept: text/plain'')"
      and s = "([], [])"
      and h = 1 and r = request0 and ign = None and sa = "([], [''added Cookie: ignore=ignore''])"
      and pre = "[]" and c = "\<lparr>Name = [], Value = []\<rparr>" and post = "[]"
      and sb = "([], [''added Cookie: ignore=ignore'', ''added Cookie: A=1'',
                      ''added Cookie: B=2''])"
      and e = "''rejected''"
      and sc = "([], [''added Cookie: ignore=ignore'', ''added Cookie: A=1'',
                      ''added Cookie: B=2''])"
      and hpre = "[]" and k = "''Accept''" and v = "''text/plain''" and hpost = "[]"
      and sd = "([], [''added Cookie: ignore=ignore'', ''added Cookie: A=1'',
                      ''added Cookie: B=2'', ''refused Accept: text/plain''])"]
    sendRequest_fails_fast [where w = "engine script0" and s = "([], [])"
      and h = 1 and r = request0 and ign = None and sa = "([], [''added Cookie: ignore=ignore''])"
      and pre = "[]" and c = "\<lparr>Name = [], Value = []\<rparr>" and post = "[]"
      and sb = "([], [''added Cookie: ignore=ignore'', ''added Cookie: A=1'',
                      ''added Cookie: B=2''])"
      and e = "[]"
      and sc = "([], [''added Cookie: ignore=ignore'', ''added Cookie: A=1'',
                      ''added Cookie: B=2'', ''added Accept: text/plain''])"
      and hpre = "[]" and k = "[]" and v = "[]" and hpost = "[]"
      and sd = "([], [''added Cookie: ignore=ignore'', ''added Cookie: A=1'',
                      ''added Cookie: B=2'', ''added Accept: text/plain'', ''send''])"]
  by (simp add: fixture_defs)

text \<open>
  C9 as the spec states it fails on the sentinel: the engine refuses
  \<^verbatim>\<open>Cookie: ignore=ignore\<close> and \<^verbatim>\<open>sendRequest\<close> goes on, attaches the cookies and the header,
  transmits the request and returns no error.
\<close>

theorem sendRequest_ignores_sentinel_failure:
  "HTTPAddRequestHeadersW (engine (refusing ''Cookie: ignore=ignore'')) ([], []) 1
       ''Cookie: ignore=ignore'' (HTTPAddreqFlagAddIfNew (engine (refusing ''Cookie: ignore=ignore'')))
     = (Some ''rejected'', ([], [''refused Cookie: ignore=ignore'']))
   \<and> sendRequest (engine (refusing ''Cookie: ignore=ignore'')) ([], []) 1 request0
     = (None,
        ([], [''refused Cookie: ignore=ignore'', ''added Cookie: A=1'', ''added Cookie: B=2'',
              ''added Accept: text/plain'', ''send'']))"
  by (simp add: fixture_defs sendRequest_def)

end
